theory Spec2Isabelle
  imports Complex_Main "HOL-Library.Word"
begin

section \<open>JavaScript values used by the translation tracker\<close>

text \<open>
  A JavaScript string is a sequence of UTF-16 code units; \<open>length\<close>, \<open>split('')\<close>
  and a regular expression without the \<open>u\<close> flag all work on code units.
\<close>

type_synonym jschar = "16 word"
type_synonym jsstring = "jschar list"

definition js_str :: "string \<Rightarrow> jsstring" where
  "js_str s = map of_char s"

text \<open>
  The code units that the regular expression class \<open>\s\<close> matches (ECMAScript WhiteSpace
  and LineTerminator); \<open>\S\<close> matches every other code unit.
\<close>

definition js_whitespace :: "jschar list" where
  "js_whitespace =
     [0x0009, 0x000A, 0x000B, 0x000C, 0x000D, 0x0020, 0x00A0, 0x1680,
      0x2000, 0x2001, 0x2002, 0x2003, 0x2004, 0x2005, 0x2006, 0x2007,
      0x2008, 0x2009, 0x200A, 0x2028, 0x2029, 0x202F, 0x205F, 0x3000, 0xFEFF]"

definition is_space :: "jschar \<Rightarrow> bool" where
  "is_space c = (c \<in> set js_whitespace)"

definition non_space :: "jschar \<Rightarrow> bool" where
  "non_space c = (\<not> is_space c)"

text \<open>
  \<open>string.match( /\S+/g )\<close>: scanning from the left, skip to the next code unit that
  \<open>\S\<close> matches, take the longest run of such units as one match, and go on after it.
  The result is the list of matches; JavaScript returns \<open>null\<close> for no match, which
  the caller replaces by the empty array (\<open>|| []\<close>), so the empty list stands for both.
\<close>

function match_non_space :: "jsstring \<Rightarrow> jsstring list" where
  "match_non_space [] = []"
| "match_non_space (c # cs) =
     (if is_space c then match_non_space cs
      else takeWhile non_space (c # cs) # match_non_space (dropWhile non_space cs))"
  by pat_completeness auto
termination
  by (relation "measure length") (auto simp: length_dropWhile_le le_imp_less_Suc)

text \<open>
  A JavaScript number as far as the tracker produces one: a quotient of two array
  lengths, or one of the thresholds. The quotient of naturals is kept exact (a
  rational); division by zero gives \<open>Infinity\<close> or, for \<open>0 / 0\<close>, \<open>NaN\<close>, as
  IEEE 754 division does. A double holds the quotient rounded to the nearest double,
  and rounding is monotone: the comparison of two doubles agrees with the comparison
  of the exact values unless two different values round to the same double, which
  for a quotient of token counts against 0.6 or 0.8 takes more than \<open>10^15\<close>
  tokens.
\<close>

datatype jsnum = Fin rat | PosInf | NaN

definition js_div :: "nat \<Rightarrow> nat \<Rightarrow> jsnum" where
  "js_div n d =
     (if d = 0 then (if n = 0 then NaN else PosInf)
      else Fin (of_nat n / of_nat d))"

text \<open>The comparison \<open>a > b\<close> of JavaScript: false as soon as one side is \<open>NaN\<close>.\<close>

fun js_gt :: "jsnum \<Rightarrow> jsnum \<Rightarrow> bool" where
  "js_gt NaN _ = False"
| "js_gt _ NaN = False"
| "js_gt (Fin a) (Fin b) = (b < a)"
| "js_gt (Fin a) PosInf = False"
| "js_gt PosInf (Fin b) = True"
| "js_gt PosInf PosInf = False"

section \<open>Tokeniser and the static progress calculators\<close>

text \<open>
  \<open>$.uls.data\<close> belongs to the jquery.uls library, not to this repository: the list
  \<open>scriptgroups.CJK\<close> and the function \<open>getScript\<close> are taken as parameters.
\<close>

record uls_data =
  scriptgroups_CJK :: "jsstring list"
  getScript :: "jsstring \<Rightarrow> jsstring"

definition is_CJK :: "uls_data \<Rightarrow> jsstring \<Rightarrow> bool" where
  "is_CJK uls language = (getScript uls language \<in> set (scriptgroups_CJK uls))"

text \<open>\<open>mw.cx.TranslationTracker.static.tokenise\<close>; \<open>string.split( '' )\<close> is one
  one-unit string per code unit.\<close>

definition tokenise :: "uls_data \<Rightarrow> jsstring \<Rightarrow> jsstring \<Rightarrow> jsstring list" where
  "tokenise uls string language =
     (if is_CJK uls language then map (\<lambda>c. [c]) string
      else match_non_space string)"

text \<open>\<open>calculateSectionTranslationProgress\<close>; \<open>!string\<close> holds for the empty string.\<close>

definition calculateSectionTranslationProgress ::
  "uls_data \<Rightarrow> jsstring \<Rightarrow> jsstring \<Rightarrow> jsstring \<Rightarrow> jsnum" where
  "calculateSectionTranslationProgress uls string1 string2 language =
     (if string1 = string2 then Fin 1
      else if string1 = [] \<or> string2 = [] then Fin 0
      else let tokens1 = tokenise uls string1 language;
               tokens2 = tokenise uls string2 language
           in js_div (length tokens2) (length tokens1))"

text \<open>\<open>calculateUnmodifiedContent\<close>; \<open>smallSet.indexOf( token ) >= 0\<close> is membership.\<close>

definition calculateUnmodifiedContent ::
  "uls_data \<Rightarrow> jsstring \<Rightarrow> jsstring \<Rightarrow> jsstring \<Rightarrow> jsnum" where
  "calculateUnmodifiedContent uls string1 string2 language =
     (if string1 = [] \<or> string2 = [] then Fin 0
      else if string1 = string2 then Fin 1
      else let tokens1 = tokenise uls string1 language;
               tokens2 = tokenise uls string2 language;
               (bigSet, smallSet) =
                 (if length tokens2 > length tokens1 then (tokens2, tokens1)
                  else (tokens1, tokens2));
               unmodifiedTokens = filter (\<lambda>token. token \<in> set smallSet) bigSet
           in js_div (length unmodifiedTokens) (length bigSet))"

section \<open>Section state\<close>

text \<open>
  The content source of a section: a provider name, the literal \<open>'source'\<close>, or
  \<open>null\<close> (\<open>None\<close>).
\<close>

type_synonym provider = "jsstring option"

text \<open>
  Modelled from the spec: the class \<open>mw.cx.dm.SectionState\<close> is not among the sources;
  only its callers are. The spec's data model gives it the fields below: \<open>source\<close>,
  \<open>unmodifiedMT\<close> and \<open>userTranslation\<close> are \<open>{html, text}\<close> pairs, the user
  translation nullable, the provider a name or null, and the two derived numbers. A
  setter stores the HTML it is given together with its text; how the text is extracted
  from HTML is a parameter (\<open>html_text\<close>). \<open>isModified\<close> is true when the user
  translation differs from the unmodified MT.

  The unmodified MT is, in the spec's data model, frozen until the provider changes,
  and set at most once per provider episode: a change of the provider opens an
  episode that awaits a fresh capture. So \<open>setCurrentMTProvider\<close>, given a provider
  other than the stored one, drops the stored unmodified MT; given the stored
  provider it changes nothing. The tracker is written for this reading: where
  \<open>processSectionChange\<close> switches a section to a new provider (lines 278 to 291),
  it captures the unmodified MT only when none is stored.
\<close>

record content =
  c_html :: "jsstring option"
  c_text :: jsstring

record section_state =
  section_number :: nat
  source :: content
  unmodifiedMT :: content
  userTranslation :: content
  currentMTProvider :: provider
  unmodifiedPercentage :: jsnum
  translationProgressPercentage :: jsnum

record platform =
  uls :: uls_data
  html_text :: "jsstring option \<Rightarrow> jsstring"

definition mk_content :: "platform \<Rightarrow> jsstring option \<Rightarrow> content" where
  "mk_content plat h = \<lparr>c_html = h, c_text = html_text plat h\<rparr>"





section \<open>The tracker\<close>

text \<open>
  What \<open>veTarget.getTargetSectionNodeFromSectionNumber\<close> returns: \<open>null\<close>
  (\<open>None\<close>), a \<open>ve.dm.CXSectionNode\<close> with its declared content origin, the HTML
  of its content and the type name of its child, or a node of another class (a
  placeholder left by an undo). The other node classes are not among the sources;
  calling a section method on one is modelled as a failure. The node found for a
  section number has that section number.
\<close>

datatype node =
  CXSectionNode (originalContentSource: provider) (innerHTML: jsstring)
    (childNodeName: jsstring)
| OtherNode

datatype error = TypeError

text \<open>
  Calls the tracker makes on its collaborators, in the order they are made: the issue
  reports on a section node, the flag \<open>setHasUserModifications\<close>, a call of the
  debounced validation scheduler, and the warning of \<open>removeSectionFromSaveQueue\<close>.
  Messages written with \<open>mw.log\<close> and the text of an issue are left out.
\<close>

datatype effect =
  AddMTAbuseIssue nat
| ResolveMTAbuseIssue nat
| SetHasUserModifications nat bool
| ScheduleValidation
| WarnNotInSaveQueue nat

text \<open>
  An identifier in \<open>nodesWithIssues\<close>: a section number or one of the special
  strings \<open>'title'\<close> and \<open>'global'\<close>, as the documentation of
  \<open>setTranslationIssues\<close> gives its parameter.
\<close>

datatype node_id = SectionId nat | Title | Global

record tracker =
  sourceLanguage :: jsstring
  targetLanguage :: jsstring
  veTarget :: "nat \<Rightarrow> node option"
  lastFocusedSection :: "nat option"
  unmodifiedMTThreshold :: jsnum
  unmodifiedSourceThreshold :: jsnum
  nodesWithIssues :: "node_id list"
  sections :: "nat \<rightharpoonup> section_state"
  validationDelayQueue :: "nat list"
  changeQueue :: "nat list"
  saveQueue :: "nat list"
  effects :: "effect list"

text \<open>The constructor \<open>mw.cx.TranslationTracker\<close>.\<close>

definition MwCXTranslationTracker ::
  "(nat \<Rightarrow> node option) \<Rightarrow> jsstring \<Rightarrow> jsstring \<Rightarrow> tracker" where
  "MwCXTranslationTracker target srcLang tgtLang =
     \<lparr>sourceLanguage = srcLang, targetLanguage = tgtLang, veTarget = target,
      lastFocusedSection = None,
      unmodifiedMTThreshold = Fin (8 / 10),
      unmodifiedSourceThreshold = Fin (6 / 10),
      nodesWithIssues = [], sections = Map.empty,
      validationDelayQueue = [], changeQueue = [], saveQueue = [], effects = []\<rparr>"

subsection \<open>Arrays\<close>

text \<open>\<open>Array.prototype.indexOf\<close>: the first index of the element, or \<open>-1\<close>.\<close>

fun indexOf :: "'a list \<Rightarrow> 'a \<Rightarrow> int" where
  "indexOf [] x = -1"
| "indexOf (y # ys) x =
     (if y = x then 0 else (let i = indexOf ys x in if i = -1 then -1 else i + 1))"

text \<open>\<open>array.splice( index, 1 )\<close> for an index that is not negative.\<close>

definition splice1 :: "int \<Rightarrow> 'a list \<Rightarrow> 'a list" where
  "splice1 index xs = take (nat index) xs @ drop (Suc (nat index)) xs"

subsection \<open>Queues\<close>





subsection \<open>MT abuse validation\<close>

definition getMTThresholdForSection :: "tracker \<Rightarrow> section_state \<Rightarrow> jsnum" where
  "getMTThresholdForSection t sectionState =
     (if currentMTProvider sectionState = Some (js_str ''source'')
      then unmodifiedSourceThreshold t else unmodifiedMTThreshold t)"

text \<open>\<open>this.sections[ sectionNumber ]\<close> is \<open>undefined\<close> for a number with no section
  state, and the method call on it throws.\<close>

definition validateForMTAbuse :: "platform \<Rightarrow> tracker \<Rightarrow> nat \<Rightarrow> error + bool" where
  "validateForMTAbuse plat t sectionNumber =
     (case sections t sectionNumber of
        None \<Rightarrow> Inl TypeError
      | Some sectionState \<Rightarrow>
          (let sourceTokens =
                 tokenise (uls plat) (c_text (source sectionState)) (sourceLanguage t)
           in if length sourceTokens < 10 then Inr False
              else Inr (js_gt (unmodifiedPercentage sectionState)
                          (getMTThresholdForSection t sectionState))))"








subsection \<open>Section changes\<close>




section \<open>Issue registry\<close>

text \<open>
  \<open>isNaN( id )\<close>: a section number is a number; \<open>'title'\<close> and \<open>'global'\<close> convert
  to \<open>NaN\<close>.
\<close>

fun isNaN :: "node_id \<Rightarrow> bool" where
  "isNaN (SectionId n) = False"
| "isNaN Title = True"
| "isNaN Global = True"

fun id_string :: "node_id \<Rightarrow> jsstring" where
  "id_string Title = js_str ''title''"
| "id_string Global = js_str ''global''"
| "id_string (SectionId n) = []"

text \<open>\<open>a > b\<close> on two strings compares their code units lexicographically.\<close>

fun js_string_gt :: "jsstring \<Rightarrow> jsstring \<Rightarrow> bool" where
  "js_string_gt [] bs = False"
| "js_string_gt (a # as) [] = True"
| "js_string_gt (a # as) (b # bs) = (if a = b then js_string_gt as bs else b < a)"

text \<open>\<open>a > b\<close> on identifiers: numeric on two numbers, lexicographic on two strings,
  and false between a number and a string that converts to \<open>NaN\<close>.\<close>

fun id_gt :: "node_id \<Rightarrow> node_id \<Rightarrow> bool" where
  "id_gt (SectionId m) (SectionId n) = (n < m)"
| "id_gt (SectionId m) b = False"
| "id_gt a (SectionId n) = False"
| "id_gt a b = js_string_gt (id_string a) (id_string b)"

text \<open>The comparator of \<open>setTranslationIssues\<close> (lines 568 to 585).\<close>

definition sortLettersAndNumbers :: "node_id \<Rightarrow> node_id \<Rightarrow> int" where
  "sortLettersAndNumbers a b =
     (if isNaN a \<and> isNaN b then (if id_gt a b then 1 else -1)
      else if isNaN a then -1
      else if isNaN b then 1
      else if id_gt a b then 1 else -1)"

text \<open>
  The comparator of the earlier variant of \<open>setTranslationIssues\<close> (lines 1099 to
  1109), which knows the special identifier \<open>'title'\<close> only. Its last line returns
  the boolean \<open>a > b\<close>, which \<open>sort\<close> reads as 1 or 0.
\<close>

definition sortLettersAndNumbers_earlier :: "node_id \<Rightarrow> node_id \<Rightarrow> int" where
  "sortLettersAndNumbers_earlier a b =
     (if isNaN a then -1
      else if isNaN b then 1
      else if id_gt a b then 1 else 0)"

text \<open>
  \<open>Array.prototype.sort( comparefn )\<close>. ECMAScript fixes the result only through the
  comparator, not the algorithm; the model sorts by insertion, an element moving in
  front of the first one that the comparator puts after it. Lemma
  \<open>js_sort_unique\<close> below shows that on an array without duplicates the current
  comparator leaves one possible result, whatever the algorithm.
\<close>

fun insert_by :: "('a \<Rightarrow> 'a \<Rightarrow> int) \<Rightarrow> 'a \<Rightarrow> 'a list \<Rightarrow> 'a list" where
  "insert_by cmp e [] = [e]"
| "insert_by cmp e (y # ys) =
     (if cmp y e > 0 then e # y # ys else y # insert_by cmp e ys)"

definition js_sort :: "('a \<Rightarrow> 'a \<Rightarrow> int) \<Rightarrow> 'a list \<Rightarrow> 'a list" where
  "js_sort cmp xs = foldl (\<lambda>acc e. insert_by cmp e acc) [] xs"

definition setTranslationIssues :: "node_id \<Rightarrow> bool \<Rightarrow> tracker \<Rightarrow> tracker" where
  "setTranslationIssues ident state t =
     (let index = indexOf (nodesWithIssues t) ident
      in if index \<noteq> -1 then
           (if \<not> state then t\<lparr>nodesWithIssues := splice1 index (nodesWithIssues t)\<rparr>
            else t)
         else if \<not> state then t
         else t\<lparr>nodesWithIssues :=
                  js_sort sortLettersAndNumbers (nodesWithIssues t @ [ident])\<rparr>)"

text \<open>
  The earlier variant of \<open>setTranslationIssues\<close> (lines 1097 to 1125): the same
  steps with the earlier comparator. With a comparator that is not consistent the
  result of \<open>sort\<close> is the engine's choice, so \<open>Array.prototype.sort\<close> is a
  parameter here.
\<close>

definition setTranslationIssues_earlier ::
  "((node_id \<Rightarrow> node_id \<Rightarrow> int) \<Rightarrow> node_id list \<Rightarrow> node_id list) \<Rightarrow>
   node_id \<Rightarrow> bool \<Rightarrow> tracker \<Rightarrow> tracker" where
  "setTranslationIssues_earlier engine_sort ident state t =
     (let index = indexOf (nodesWithIssues t) ident
      in if index \<noteq> -1 then
           (if \<not> state then t\<lparr>nodesWithIssues := splice1 index (nodesWithIssues t)\<rparr>
            else t)
         else if \<not> state then t
         else t\<lparr>nodesWithIssues :=
                  engine_sort sortLettersAndNumbers_earlier (nodesWithIssues t @ [ident])\<rparr>)"

section \<open>Section alignment\<close>

text \<open>
  \<open>keepAlignment\<close> works on two boxes of the page: the translation section
  (\<open>$section\<close>, the element the handler is bound to) and its source section
  (\<open>$sourceSection\<close>); for a \<open>FIGURE\<close> the two \<open>figcaption\<close> elements take their
  place. The state is the \<open>min-height\<close> style of the two boxes (\<open>None\<close> when unset)
  and the calls made, in order. What the browser renders is a parameter: the height
  of each box as a function of the two styles.
\<close>

datatype dom_call =
  SourceMinHeight "int option"
| SectionMinHeight "int option"
| Track

record alignment =
  sourceMinHeight :: "int option"
  sectionMinHeight :: "int option"
  calls :: "dom_call list"

record layout =
  height_of_source :: "int option \<Rightarrow> int option \<Rightarrow> int"
  height_of_section :: "int option \<Rightarrow> int option \<Rightarrow> int"

definition source_height :: "layout \<Rightarrow> alignment \<Rightarrow> int" where
  "source_height lay a = height_of_source lay (sourceMinHeight a) (sectionMinHeight a)"

definition section_height :: "layout \<Rightarrow> alignment \<Rightarrow> int" where
  "section_height lay a = height_of_section lay (sourceMinHeight a) (sectionMinHeight a)"

definition css_source :: "int option \<Rightarrow> alignment \<Rightarrow> alignment" where
  "css_source v a = a\<lparr>sourceMinHeight := v, calls := calls a @ [SourceMinHeight v]\<rparr>"

definition css_section :: "int option \<Rightarrow> alignment \<Rightarrow> alignment" where
  "css_section v a = a\<lparr>sectionMinHeight := v, calls := calls a @ [SectionMinHeight v]\<rparr>"

definition track :: "alignment \<Rightarrow> alignment" where
  "track a = a\<lparr>calls := calls a @ [Track]\<rparr>"

text \<open>
  The \<open>while\<close> loop of \<open>keepAlignment\<close> (lines 331 to 341), entered with the
  counter \<open>steps\<close> and the two heights last measured. \<open>steps++ === 10\<close> compares the
  value before the increment.
\<close>

partial_function (option) alignmentLoop ::
  "layout \<Rightarrow> nat \<Rightarrow> int \<Rightarrow> int \<Rightarrow> alignment \<Rightarrow> alignment option" where
  "alignmentLoop lay steps sectionHeight sourceSectionHeight a =
     (if sectionHeight \<noteq> sourceSectionHeight then
        (let h = sectionHeight + 10;
             a1 = css_section (Some h) (css_source (Some h) a)
         in if steps = 10 then Some (track a1)
            else alignmentLoop lay (steps + 1) (section_height lay a1)
                   (source_height lay a1) a1)
      else Some a)"

declare alignmentLoop.simps [code]

definition keepAlignment :: "layout \<Rightarrow> jsstring \<Rightarrow> alignment \<Rightarrow> alignment option" where
  "keepAlignment lay tagName a =
     (if tagName = js_str ''TABLE'' then Some a
      else
        (let a0 = css_source None a;
             sourceSectionHeight = source_height lay a0;
             sectionHeight = section_height lay a0
         in if sourceSectionHeight < sectionHeight then
              (let a1 = css_source (Some sectionHeight) a0
               in alignmentLoop lay 0 (section_height lay a1) (source_height lay a1) a1)
            else if sourceSectionHeight > sectionHeight then
              Some (css_section (Some sourceSectionHeight) a0)
            else Some a0))"

section \<open>What the specification says\<close>

text \<open>
  The tokens of a text written in a script with spaces are its maximal runs of
  characters that are not whitespace: the text is, from the left, whitespace only, or
  a stretch of whitespace, then a run that is not empty and has no whitespace, then a
  rest that is empty or starts with whitespace and holds the other runs.
\<close>

inductive maximal_runs :: "jsstring \<Rightarrow> jsstring list \<Rightarrow> bool" where
  no_run: "\<forall>c \<in> set g. is_space c \<Longrightarrow> maximal_runs g []"
| next_run:
    "\<forall>c \<in> set g. is_space c \<Longrightarrow> t \<noteq> [] \<Longrightarrow> \<forall>c \<in> set t. \<not> is_space c \<Longrightarrow>
     rest = [] \<or> is_space (hd rest) \<Longrightarrow> maximal_runs rest ts \<Longrightarrow>
     maximal_runs (g @ t @ rest) (t # ts)"

text \<open>
  The characters of a text written in a script without spaces are its code points.
  A JavaScript string writes a code point outside the Basic Multilingual Plane as
  two code units, a high surrogate followed by a low surrogate; every other code
  unit is a code point of its own.
\<close>

definition is_high_surrogate :: "jschar \<Rightarrow> bool" where
  "is_high_surrogate c = (0xD800 \<le> c \<and> c \<le> 0xDBFF)"

definition is_low_surrogate :: "jschar \<Rightarrow> bool" where
  "is_low_surrogate c = (0xDC00 \<le> c \<and> c \<le> 0xDFFF)"

definition is_surrogate :: "jschar \<Rightarrow> bool" where
  "is_surrogate c = (is_high_surrogate c \<or> is_low_surrogate c)"

fun code_points :: "jsstring \<Rightarrow> jsstring list" where
  "code_points [] = []"
| "code_points [c] = [[c]]"
| "code_points (c # d # cs) =
     (if is_high_surrogate c \<and> is_low_surrogate d then [c, d] # code_points cs
      else [c] # code_points (d # cs))"

text \<open>
  The unmodified ratio in the specification's words: the number of tokens of the
  smaller token list that occur in the larger one, over the size of the larger one.
\<close>

definition unmodifiedRatio_spec ::
  "uls_data \<Rightarrow> jsstring \<Rightarrow> jsstring \<Rightarrow> jsstring \<Rightarrow> jsnum" where
  "unmodifiedRatio_spec u reference current language =
     (if reference = [] \<or> current = [] then Fin 0
      else if reference = current then Fin 1
      else let tokens1 = tokenise u reference language;
               tokens2 = tokenise u current language;
               larger = (if length tokens2 > length tokens1 then tokens2 else tokens1);
               smaller = (if length tokens2 > length tokens1 then tokens1 else tokens2)
           in js_div (length (filter (\<lambda>token. token \<in> set larger) smaller))
                (length larger))"

text \<open>A value in the interval from 0 to 1.\<close>

fun in_unit_interval :: "jsnum \<Rightarrow> bool" where
  "in_unit_interval (Fin r) = (0 \<le> r \<and> r \<le> 1)"
| "in_unit_interval PosInf = False"
| "in_unit_interval NaN = False"

text \<open>
  The order of the issue registry: the special identifiers first, \<open>'global'\<close> before
  \<open>'title'\<close>, then the section numbers, ascending; and no identifier twice.
\<close>

fun issue_before :: "node_id \<Rightarrow> node_id \<Rightarrow> bool" where
  "issue_before Global Title = True"
| "issue_before Global (SectionId n) = True"
| "issue_before Title (SectionId n) = True"
| "issue_before (SectionId m) (SectionId n) = (m < n)"
| "issue_before a b = False"

definition issue_registry_ok :: "node_id list \<Rightarrow> bool" where
  "issue_registry_ok xs = (distinct xs \<and> sorted_wrt issue_before xs)"

section \<open>Notions used in the statements\<close>

text \<open>The place of an identifier in the order of the issue registry, as a number.\<close>

fun issue_rank :: "node_id \<Rightarrow> nat" where
  "issue_rank Global = 0"
| "issue_rank Title = 1"
| "issue_rank (SectionId n) = n + 2"

text \<open>The values written to the \<open>min-height\<close> of the translation section, in order.\<close>

fun section_min_heights :: "dom_call list \<Rightarrow> int option list" where
  "section_min_heights [] = []"
| "section_min_heights (SectionMinHeight v # cs) = v # section_min_heights cs"
| "section_min_heights (c # cs) = section_min_heights cs"

text \<open>The number of writes to the \<open>min-height\<close> of the translation section: one for
  each round of the alignment loop.\<close>

definition loop_rounds :: "dom_call list \<Rightarrow> nat" where
  "loop_rounds cs = length (section_min_heights cs)"

text \<open>
  One round of the alignment loop: both \<open>min-height\<close>s are set to ten pixels above
  the rendered height of the translation section. And the state in which the loop is
  entered: the source's \<open>min-height\<close> reset and then set to the height of the
  translation section.
\<close>

definition raise_both :: "layout \<Rightarrow> alignment \<Rightarrow> alignment" where
  "raise_both lay a =
     css_section (Some (section_height lay a + 10))
       (css_source (Some (section_height lay a + 10)) a)"

definition match_source :: "layout \<Rightarrow> alignment \<Rightarrow> alignment" where
  "match_source lay a =
     css_source (Some (section_height lay (css_source None a))) (css_source None a)"

definition aligned :: "layout \<Rightarrow> alignment \<Rightarrow> bool" where
  "aligned lay a = (section_height lay a = source_height lay a)"






text \<open>The values written to the section's \<open>min-height\<close> and the number of loop
  rounds of a run of \<open>keepAlignment\<close> that returns.\<close>

definition result_section_min_heights :: "alignment option \<Rightarrow> int option list" where
  "result_section_min_heights r =
     (case r of None \<Rightarrow> [] | Some a \<Rightarrow> section_min_heights (calls a))"

definition result_rounds :: "alignment option \<Rightarrow> nat option" where
  "result_rounds r = (case r of None \<Rightarrow> None | Some a \<Rightarrow> Some (loop_rounds (calls a)))"

section \<open>Example data\<close>

text \<open>
  A script table in the manner of jquery.uls: Chinese and Japanese are written in
  scripts of the CJK group, everything else here in Latin script.
\<close>

definition example_uls :: uls_data where
  "example_uls =
     \<lparr>scriptgroups_CJK = [js_str ''Hans'', js_str ''Hant'', js_str ''Kore'', js_str ''Jpan''],
      getScript = (\<lambda>language.
        if language = js_str ''zh'' then js_str ''Hans''
        else if language = js_str ''ja'' then js_str ''Jpan''
        else js_str ''Latn'')\<rparr>"

text \<open>A platform for HTML without markup: the text of a content is the content.\<close>

definition example_platform :: platform where
  "example_platform =
     \<lparr>uls = example_uls,
      html_text = (\<lambda>h. case h of None \<Rightarrow> [] | Some s \<Rightarrow> s)\<rparr>"

definition ten_tokens :: jsstring where
  "ten_tokens = js_str ''a b c d e f g h i j''"

definition eight_tokens :: jsstring where
  "eight_tokens = js_str ''a b c d e f g h''"

text \<open>A section state with the given source text, provider and unmodified percentage.\<close>

definition example_section :: "jsstring \<Rightarrow> provider \<Rightarrow> jsnum \<Rightarrow> section_state" where
  "example_section src p ratio =
     \<lparr>section_number = 1,
      source = mk_content example_platform (Some src),
      unmodifiedMT = mk_content example_platform (Some src),
      userTranslation = mk_content example_platform (Some src),
      currentMTProvider = p,
      unmodifiedPercentage = ratio,
      translationProgressPercentage = Fin 1\<rparr>"

text \<open>A tracker as constructed, from English to Spanish, holding one section state.\<close>

definition example_tracker :: "section_state \<Rightarrow> tracker" where
  "example_tracker st =
     (MwCXTranslationTracker (\<lambda>n. None) (js_str ''en'') (js_str ''es''))
       \<lparr>sections := [1 \<mapsto> st]\<rparr>"

text \<open>A tracker as constructed whose issue registry holds the given identifiers.\<close>

definition registry_tracker :: "node_id list \<Rightarrow> tracker" where
  "registry_tracker xs =
     (MwCXTranslationTracker (\<lambda>n. None) (js_str ''en'') (js_str ''es''))
       \<lparr>nodesWithIssues := xs\<rparr>"

text \<open>
  A layout in which each box is as high as its content or its \<open>min-height\<close>,
  whichever is more; and one in which the source box renders four pixels higher than
  its \<open>min-height\<close> asks for.
\<close>

definition natural_layout :: "int \<Rightarrow> int \<Rightarrow> layout" where
  "natural_layout sourceContent sectionContent =
     \<lparr>height_of_source = (\<lambda>ms mt. max sourceContent (case ms of None \<Rightarrow> 0 | Some m \<Rightarrow> m)),
      height_of_section = (\<lambda>ms mt. max sectionContent (case mt of None \<Rightarrow> 0 | Some m \<Rightarrow> m))\<rparr>"

definition padded_layout :: "int \<Rightarrow> int \<Rightarrow> layout" where
  "padded_layout sourceContent sectionContent =
     \<lparr>height_of_source =
        (\<lambda>ms mt. max sourceContent (case ms of None \<Rightarrow> 0 | Some m \<Rightarrow> m + 4)),
      height_of_section = (\<lambda>ms mt. max sectionContent (case mt of None \<Rightarrow> 0 | Some m \<Rightarrow> m))\<rparr>"

definition unstyled :: alignment where
  "unstyled = \<lparr>sourceMinHeight = None, sectionMinHeight = None, calls = []\<rparr>"




text \<open>
  An engine: \<open>Array.prototype.sort\<close> as V8 runs it on an array of fewer than 64
  elements. It takes the run at the front of the array: the elements that the
  comparator does not put before their predecessor, or, when the second element is
  put before the first, the elements that are put before their predecessor, and
  then that run reversed. Each later element is placed into the sorted front by a
  binary search.
\<close>

fun v8_run_length :: "('a \<Rightarrow> 'a \<Rightarrow> int) \<Rightarrow> bool \<Rightarrow> 'a \<Rightarrow> 'a list \<Rightarrow> nat" where
  "v8_run_length cmp isDescending previousElement [] = 0"
| "v8_run_length cmp isDescending previousElement (currentElement # rest) =
     (let order = cmp currentElement previousElement
      in if (if isDescending then order \<ge> 0 else order < 0) then 0
         else Suc (v8_run_length cmp isDescending currentElement rest))"

fun v8_count_and_make_run :: "('a \<Rightarrow> 'a \<Rightarrow> int) \<Rightarrow> 'a list \<Rightarrow> nat \<times> 'a list" where
  "v8_count_and_make_run cmp [] = (0, [])"
| "v8_count_and_make_run cmp [x] = (1, [x])"
| "v8_count_and_make_run cmp (elementHigh # elementLow # rest) =
     (let isDescending = (cmp elementLow elementHigh < 0);
          runLength = 2 + v8_run_length cmp isDescending elementLow rest;
          xs = elementHigh # elementLow # rest
      in if isDescending then (runLength, rev (take runLength xs) @ drop runLength xs)
         else (runLength, xs))"

function v8_binary_position ::
  "('a \<Rightarrow> 'a \<Rightarrow> int) \<Rightarrow> 'a \<Rightarrow> 'a list \<Rightarrow> nat \<Rightarrow> nat \<Rightarrow> nat" where
  "v8_binary_position cmp pivot xs left right =
     (if left < right then
        (let mid = left + (right - left) div 2
         in if cmp pivot (xs ! mid) < 0 then v8_binary_position cmp pivot xs left mid
            else v8_binary_position cmp pivot xs (mid + 1) right)
      else left)"
  by pat_completeness auto

termination
  by (relation "measure (\<lambda>(cmp, pivot, xs, left, right). right - left)") auto

definition v8_binary_insert :: "('a \<Rightarrow> 'a \<Rightarrow> int) \<Rightarrow> 'a list \<Rightarrow> nat \<Rightarrow> 'a list" where
  "v8_binary_insert cmp xs start =
     (let pivot = xs ! start;
          left = v8_binary_position cmp pivot xs 0 start
      in take left xs @ pivot # take (start - left) (drop left xs) @ drop (Suc start) xs)"

definition v8_sort :: "('a \<Rightarrow> 'a \<Rightarrow> int) \<Rightarrow> 'a list \<Rightarrow> 'a list" where
  "v8_sort cmp xs =
     (if length xs < 2 then xs
      else (let (runLength, ys) = v8_count_and_make_run cmp xs
            in foldl (v8_binary_insert cmp) ys [runLength..<length ys]))"

text \<open>
  A Chinese text of three characters with a space, and one character outside the
  Basic Multilingual Plane, U+20BB7, which a JavaScript string writes as two code
  units.
\<close>

definition zh_text :: jsstring where
  "zh_text = [0x4E2D, 0x6587, 0x20, 0x5B57]"

definition supplementary_text :: jsstring where
  "supplementary_text = [0xD842, 0xDFB7]"

section \<open>Facts about the example data\<close>

lemma is_CJK_zh: "is_CJK example_uls (js_str ''zh'')"
  by code_simp

lemma not_CJK_en: "\<not> is_CJK example_uls (js_str ''en'')"
  by code_simp

lemma length_ten_tokens: "length (tokenise example_uls ten_tokens (js_str ''en'')) = 10"
  by code_simp

lemma length_eight_tokens: "length (tokenise example_uls eight_tokens (js_str ''en'')) = 8"
  by code_simp

lemma example_tracker_section: "sections (example_tracker st) 1 = Some st"
  by (simp add: example_tracker_def)

lemma example_source_tokens:
  "tokenise (uls example_platform) (c_text (source (example_section src p r)))
     (sourceLanguage (example_tracker st)) = tokenise example_uls src (js_str ''en'')"
  by (simp add: example_tracker_def example_section_def example_platform_def mk_content_def
      MwCXTranslationTracker_def)

lemma example_thresholds:
  "unmodifiedMTThreshold (example_tracker st) = Fin (8 / 10)"
  "unmodifiedSourceThreshold (example_tracker st) = Fin (6 / 10)"
  by (simp_all add: example_tracker_def MwCXTranslationTracker_def)

lemma example_section_fields:
  "currentMTProvider (example_section src p r) = p"
  "unmodifiedPercentage (example_section src p r) = r"
  by (simp_all add: example_section_def)

lemma google_not_source: "js_str ''Google'' \<noteq> js_str ''source''"
  by code_simp

lemma validateForMTAbuse_Some:
  "sections t sectionNumber = Some sectionState \<Longrightarrow>
   validateForMTAbuse plat t sectionNumber =
     (if length (tokenise (uls plat) (c_text (source sectionState)) (sourceLanguage t)) < 10
      then Inr False
      else Inr (js_gt (unmodifiedPercentage sectionState)
                  (getMTThresholdForSection t sectionState)))"
  by (simp add: validateForMTAbuse_def)

section \<open>The empty edge case of the two calculators\<close>

text \<open>
  Claim C10. When both strings are empty, \<open>calculateSectionTranslationProgress\<close>
  returns 1, because it tests for identical strings before it tests for an empty one,
  while \<open>calculateUnmodifiedContent\<close> returns 0, because it tests for an empty string
  first: the two metrics disagree on the pair of empty strings, in every language.
\<close>

theorem C10_calculators_disagree_on_empty:
  "calculateSectionTranslationProgress u [] [] language = Fin 1 \<and>
   calculateUnmodifiedContent u [] [] language = Fin 0"
  by (simp add: calculateSectionTranslationProgress_def calculateUnmodifiedContent_def)

section \<open>The length floor of the MT abuse validation\<close>

text \<open>
  Claim C5. A section whose source text has fewer than 10 tokens in the source
  language is never flagged: \<open>validateForMTAbuse\<close> returns false whatever the
  unmodified percentage, the thresholds and the provider are.
\<close>

theorem C5_short_section_not_flagged:
  assumes "sections t sectionNumber = Some sectionState"
    and "length (tokenise (uls plat) (c_text (source sectionState)) (sourceLanguage t)) < 10"
  shows "validateForMTAbuse plat t sectionNumber = Inr False"
  using assms by (simp add: validateForMTAbuse_def)

text \<open>Scenario D: eight source tokens at an unmodified ratio of 0.95.\<close>

theorem C5_scenario_D_witness:
  "sections (example_tracker
       (example_section eight_tokens (Some (js_str ''Google'')) (Fin (95 / 100)))) 1
     = Some (example_section eight_tokens (Some (js_str ''Google'')) (Fin (95 / 100))) \<and>
   length (tokenise (uls example_platform)
       (c_text (source (example_section eight_tokens (Some (js_str ''Google''))
          (Fin (95 / 100)))))
       (sourceLanguage (example_tracker
          (example_section eight_tokens (Some (js_str ''Google'')) (Fin (95 / 100)))))) < 10 \<and>
   validateForMTAbuse example_platform
     (example_tracker (example_section eight_tokens (Some (js_str ''Google'')) (Fin (95 / 100))))
     1 = Inr False"
proof -
  let ?st = "example_section eight_tokens (Some (js_str ''Google'')) (Fin (95 / 100))"
  let ?t = "example_tracker ?st"
  have a: "sections ?t 1 = Some ?st"
    by (rule example_tracker_section)
  have b: "length (tokenise (uls example_platform) (c_text (source ?st)) (sourceLanguage ?t)) < 10"
    by (simp add: example_source_tokens length_eight_tokens)
  from C5_short_section_not_flagged [OF a b] a b show ?thesis
    by simp
qed

section \<open>The provider-dependent threshold\<close>

text \<open>
  Claim C1, as the code has it. On a tracker with the thresholds its constructor
  sets, a section whose source text has at least 10 tokens is flagged by
  \<open>validateForMTAbuse\<close> exactly when its unmodified percentage exceeds the threshold
  of its provider: 0.6 when the provider is the literal \<open>'source'\<close>, 0.8 for any
  other provider. At an unmodified ratio of 0.65 it is flagged exactly when its
  provider is \<open>'source'\<close>. Sections with a shorter source are never flagged
  (claim C5), so the floor of 10 tokens is a hypothesis here.
\<close>

theorem C1_flagged_above_provider_threshold:
  assumes "sections t sectionNumber = Some sectionState"
    and "unmodifiedMTThreshold t = Fin (8 / 10)"
    and "unmodifiedSourceThreshold t = Fin (6 / 10)"
    and "10 \<le> length (tokenise (uls plat) (c_text (source sectionState)) (sourceLanguage t))"
  shows "validateForMTAbuse plat t sectionNumber =
     Inr (js_gt (unmodifiedPercentage sectionState)
            (if currentMTProvider sectionState = Some (js_str ''source'')
             then Fin (6 / 10) else Fin (8 / 10))) \<and>
     (unmodifiedPercentage sectionState = Fin (65 / 100) \<longrightarrow>
        validateForMTAbuse plat t sectionNumber =
          Inr (currentMTProvider sectionState = Some (js_str ''source'')))"
  using assms by (simp add: validateForMTAbuse_def getMTThresholdForSection_def)

text \<open>Scenario C: ten source tokens at an unmodified ratio of 0.65 are flagged when
  copied from the source, and not flagged under an MT provider.\<close>

theorem C1_scenario_C_witness:
  "validateForMTAbuse example_platform
     (example_tracker (example_section ten_tokens (Some (js_str ''source'')) (Fin (65 / 100)))) 1
     = Inr True \<and>
   validateForMTAbuse example_platform
     (example_tracker (example_section ten_tokens (Some (js_str ''Google'')) (Fin (65 / 100)))) 1
     = Inr False"
proof -
  have len: "10 \<le> length (tokenise (uls example_platform)
      (c_text (source (example_section ten_tokens p (Fin (65 / 100)))))
      (sourceLanguage (example_tracker (example_section ten_tokens p (Fin (65 / 100))))))" for p
    by (simp add: example_source_tokens length_ten_tokens)
  show ?thesis
    using
      C1_flagged_above_provider_threshold [OF example_tracker_section example_thresholds
        len [of "Some (js_str ''source'')"]]
      C1_flagged_above_provider_threshold [OF example_tracker_section example_thresholds
        len [of "Some (js_str ''Google'')"]]
    by (simp add: example_section_fields google_not_source)
qed

text \<open>
  Without the floor the statement fails: eight source tokens copied from the source
  at a ratio of 0.65 exceed the threshold of 0.6 and are not flagged.
\<close>

theorem C1_short_section_counterexample:
  "js_gt (unmodifiedPercentage (example_section eight_tokens (Some (js_str ''source'')) (Fin (65 / 100))))
     (getMTThresholdForSection
        (example_tracker (example_section eight_tokens (Some (js_str ''source'')) (Fin (65 / 100))))
        (example_section eight_tokens (Some (js_str ''source'')) (Fin (65 / 100)))) \<and>
   validateForMTAbuse example_platform
     (example_tracker (example_section eight_tokens (Some (js_str ''source'')) (Fin (65 / 100)))) 1
     = Inr False"
proof
  show "js_gt (unmodifiedPercentage (example_section eight_tokens (Some (js_str ''source'')) (Fin (65 / 100))))
     (getMTThresholdForSection
        (example_tracker (example_section eight_tokens (Some (js_str ''source'')) (Fin (65 / 100))))
        (example_section eight_tokens (Some (js_str ''source'')) (Fin (65 / 100))))"
    by (simp add: getMTThresholdForSection_def example_thresholds example_section_fields)
  show "validateForMTAbuse example_platform
     (example_tracker (example_section eight_tokens (Some (js_str ''source'')) (Fin (65 / 100)))) 1
     = Inr False"
    unfolding validateForMTAbuse_Some [OF example_tracker_section] example_source_tokens
      length_eight_tokens
    by simp
qed

section \<open>Section progress\<close>

text \<open>
  Claim C4. \<open>calculateSectionTranslationProgress\<close> returns 1 when the two strings
  are identical (so for every string against itself, the empty one included), 0 when
  they differ and one is empty, and otherwise the JavaScript quotient of the token
  count of the second string by the token count of the first. When the first string
  has a token this is the exact quotient, with no clamping: more tokens in the second
  string than in the first give a value above 1.
\<close>

theorem C4_section_progress:
  "(s1 = s2 \<longrightarrow> calculateSectionTranslationProgress u s1 s2 l = Fin 1) \<and>
   (s1 \<noteq> s2 \<and> (s1 = [] \<or> s2 = []) \<longrightarrow>
      calculateSectionTranslationProgress u s1 s2 l = Fin 0) \<and>
   (s1 \<noteq> s2 \<and> s1 \<noteq> [] \<and> s2 \<noteq> [] \<longrightarrow>
      calculateSectionTranslationProgress u s1 s2 l =
        js_div (length (tokenise u s2 l)) (length (tokenise u s1 l))) \<and>
   (s1 \<noteq> s2 \<and> s1 \<noteq> [] \<and> s2 \<noteq> [] \<and> tokenise u s1 l \<noteq> [] \<longrightarrow>
      calculateSectionTranslationProgress u s1 s2 l =
        Fin (of_nat (length (tokenise u s2 l)) / of_nat (length (tokenise u s1 l)))) \<and>
   calculateSectionTranslationProgress u s s l = Fin 1"
  by (simp add: calculateSectionTranslationProgress_def js_div_def Let_def)

lemma progress_example_inputs:
  "js_str ''a b'' \<noteq> js_str ''a b c d'' \<and> js_str ''a b'' \<noteq> [] \<and>
   js_str ''a b c d'' \<noteq> []"
  by code_simp

lemma progress_example_tokens:
  "tokenise example_uls (js_str ''a b'') (js_str ''es'') \<noteq> []"
  by code_simp

lemma progress_example_lengths:
  "length (tokenise example_uls (js_str ''a b'') (js_str ''es'')) = 2"
  "length (tokenise example_uls (js_str ''a b c d'') (js_str ''es'')) = 4"
  by code_simp+

text \<open>Two tokens translated into four: the progress is 2.\<close>

theorem C4_expansion_witness:
  "js_str ''a b'' \<noteq> js_str ''a b c d'' \<and> js_str ''a b'' \<noteq> [] \<and>
   js_str ''a b c d'' \<noteq> [] \<and>
   tokenise example_uls (js_str ''a b'') (js_str ''es'') \<noteq> [] \<and>
   calculateSectionTranslationProgress example_uls (js_str ''a b'') (js_str ''a b c d'')
     (js_str ''es'') = Fin 2"
proof -
  have "calculateSectionTranslationProgress example_uls (js_str ''a b'') (js_str ''a b c d'')
      (js_str ''es'')
      = Fin (of_nat (length (tokenise example_uls (js_str ''a b c d'') (js_str ''es''))) /
             of_nat (length (tokenise example_uls (js_str ''a b'') (js_str ''es''))))"
    using C4_section_progress [of "js_str ''a b''" "js_str ''a b c d''" example_uls
        "js_str ''es''"]
      progress_example_inputs progress_example_tokens
    by blast
  then show ?thesis
    using progress_example_inputs progress_example_tokens
    by (simp add: progress_example_lengths)
qed

section \<open>The tokeniser\<close>

text \<open>
  The matches of \<open>/\S+/g\<close> are the maximal runs of the text that hold no whitespace,
  and nothing else is.
\<close>

lemma match_all_space: "\<forall>c \<in> set g. is_space c \<Longrightarrow> match_non_space g = []"
  by (induction g) auto

lemma match_skip_space:
  "\<forall>c \<in> set g. is_space c \<Longrightarrow> match_non_space (g @ s) = match_non_space s"
  by (induction g) auto

lemma takeWhile_run:
  assumes "\<forall>c \<in> set t. non_space c" and "rest = [] \<or> \<not> non_space (hd rest)"
  shows "takeWhile non_space (t @ rest) = t" and "dropWhile non_space (t @ rest) = rest"
proof -
  have r: "takeWhile non_space rest = []" "dropWhile non_space rest = rest"
    using assms(2) by (cases rest; simp)+
  show "takeWhile non_space (t @ rest) = t"
    using assms(1) r by (simp add: takeWhile_append2)
  show "dropWhile non_space (t @ rest) = rest"
    using assms(1) r by (simp add: dropWhile_append2)
qed

lemma match_run:
  assumes "t \<noteq> []" and "\<forall>c \<in> set t. \<not> is_space c" and "rest = [] \<or> is_space (hd rest)"
  shows "match_non_space (t @ rest) = t # match_non_space rest"
proof -
  obtain c t' where t: "t = c # t'" using assms(1) by (cases t) auto
  have ns: "\<forall>c \<in> set t. non_space c" "\<forall>c \<in> set t'. non_space c"
    using assms(2) t by (auto simp: non_space_def)
  have r: "rest = [] \<or> \<not> non_space (hd rest)"
    using assms(3) by (auto simp: non_space_def)
  have "match_non_space (t @ rest) =
      takeWhile non_space (t @ rest) # match_non_space (dropWhile non_space (t' @ rest))"
    using assms(2) t by simp
  then show ?thesis
    using takeWhile_run(1) [OF ns(1) r] takeWhile_run(2) [OF ns(2) r] by simp
qed

lemma maximal_runs_complete: "maximal_runs s ts \<Longrightarrow> match_non_space s = ts"
proof (induction rule: maximal_runs.induct)
  case (no_run g)
  then show ?case by (simp add: match_all_space)
next
  case (next_run g t rest ts)
  then show ?case by (simp add: match_skip_space match_run)
qed

lemma maximal_runs_space_Cons:
  assumes "is_space c" and "maximal_runs s ts"
  shows "maximal_runs (c # s) ts"
  using assms(2)
proof (cases rule: maximal_runs.cases)
  case no_run
  then have "\<forall>x \<in> set (c # s). is_space x" using assms(1) by simp
  then have "maximal_runs (c # s) []" by (rule maximal_runs.no_run)
  then show ?thesis using no_run by simp
next
  case (next_run g t rest ts')
  have "maximal_runs ((c # g) @ t @ rest) (t # ts')"
    using next_run assms(1) by (intro maximal_runs.next_run) auto
  then show ?thesis using next_run by simp
qed

lemma maximal_runs_sound: "maximal_runs s (match_non_space s)"
proof (induction s rule: match_non_space.induct)
  case 1
  show ?case by (simp add: maximal_runs.no_run)
next
  case (2 c cs)
  show ?case
  proof (cases "is_space c")
    case True
    then show ?thesis using 2 by (simp add: maximal_runs_space_Cons)
  next
    case False
    let ?t = "takeWhile non_space (c # cs)"
    let ?rest = "dropWhile non_space cs"
    have nc: "non_space c" using False by (simp add: non_space_def)
    have split: "[] @ ?t @ ?rest = c # cs"
      using nc by simp
    have t_ne: "?t \<noteq> []" using nc by simp
    have t_ns: "\<forall>x \<in> set ?t. \<not> is_space x"
      using set_takeWhileD [of _ non_space "c # cs"] by (auto simp: non_space_def)
    have rest_sp: "?rest = [] \<or> is_space (hd ?rest)"
      using hd_dropWhile [of non_space cs] by (auto simp: non_space_def)
    have "maximal_runs ([] @ ?t @ ?rest) (?t # match_non_space ?rest)"
      using t_ne t_ns rest_sp 2(2) [OF False]
      by (intro maximal_runs.next_run) auto
    then have "maximal_runs (c # cs) (?t # match_non_space ?rest)"
      by (simp only: split)
    moreover have "match_non_space (c # cs) = ?t # match_non_space ?rest"
      using False by simp
    ultimately show ?thesis by simp
  qed
qed

lemma maximal_runs_iff: "maximal_runs s ts \<longleftrightarrow> match_non_space s = ts"
  using maximal_runs_complete maximal_runs_sound by auto

lemma code_points_no_surrogate:
  "\<forall>c \<in> set s. \<not> is_surrogate c \<Longrightarrow> code_points s = map (\<lambda>c. [c]) s"
  by (induction s rule: code_points.induct) (auto simp: is_surrogate_def)

text \<open>
  Claim C7, as the code has it. \<open>tokenise\<close> is a function of its two arguments with
  no failure. For a language whose script is in the CJK group and a string of
  characters of the Basic Multilingual Plane it returns one token per character,
  whitespace included, so a string of length N gives N tokens. For every other
  language its result is the list of the maximal runs of non-whitespace characters,
  and whitespace-only input gives the empty list. Empty input gives the empty list
  for every language.
\<close>

theorem C7_tokenise:
  "(is_CJK u l \<and> (\<forall>c \<in> set s. \<not> is_surrogate c) \<longrightarrow>
      tokenise u s l = code_points s \<and> length (tokenise u s l) = length s) \<and>
   (\<not> is_CJK u l \<longrightarrow> (maximal_runs s ts \<longleftrightarrow> tokenise u s l = ts)) \<and>
   (\<not> is_CJK u l \<and> (\<forall>c \<in> set s. is_space c) \<longrightarrow> tokenise u s l = []) \<and>
   tokenise u [] l = []"
  by (simp add: tokenise_def maximal_runs_iff match_all_space code_points_no_surrogate)

lemma zh_text_plain: "list_all (\<lambda>c. \<not> is_surrogate c) zh_text"
  by code_simp

lemma zh_text_code_points:
  "code_points zh_text = [[0x4E2D], [0x6587], [0x20], [0x5B57]] \<and> length zh_text = 4"
  by code_simp

lemma tokens_en_example:
  "tokenise example_uls (js_str '' The cat '') (js_str ''en'') =
     [js_str ''The'', js_str ''cat'']"
  by code_simp

lemma two_spaces: "list_all is_space (js_str ''  '')"
  by code_simp

text \<open>A Chinese text of four characters, a padded English phrase, and two spaces in
  English.\<close>

theorem C7_tokenise_witness:
  "is_CJK example_uls (js_str ''zh'') \<and>
   list_all (\<lambda>c. \<not> is_surrogate c) zh_text \<and>
   tokenise example_uls zh_text (js_str ''zh'') = [[0x4E2D], [0x6587], [0x20], [0x5B57]] \<and>
   length (tokenise example_uls zh_text (js_str ''zh'')) = 4 \<and>
   \<not> is_CJK example_uls (js_str ''en'') \<and>
   maximal_runs (js_str '' The cat '') [js_str ''The'', js_str ''cat''] \<and>
   list_all is_space (js_str ''  '') \<and>
   tokenise example_uls (js_str ''  '') (js_str ''en'') = []"
proof -
  have plain: "\<forall>c \<in> set zh_text. \<not> is_surrogate c"
    using zh_text_plain by (simp only: list_all_iff)
  have a: "tokenise example_uls zh_text (js_str ''zh'') = [[0x4E2D], [0x6587], [0x20], [0x5B57]]"
    "length (tokenise example_uls zh_text (js_str ''zh'')) = 4"
    using C7_tokenise [of example_uls "js_str ''zh''" zh_text] is_CJK_zh plain zh_text_code_points
    by simp_all
  have b: "maximal_runs (js_str '' The cat '') [js_str ''The'', js_str ''cat'']"
    using C7_tokenise [of example_uls "js_str ''en''" "js_str '' The cat ''"
        "[js_str ''The'', js_str ''cat'']"] not_CJK_en tokens_en_example
    by blast
  have "\<forall>c \<in> set (js_str ''  ''). is_space c"
    using two_spaces by (simp only: list_all_iff)
  then have c: "tokenise example_uls (js_str ''  '') (js_str ''en'') = []"
    using C7_tokenise [of example_uls "js_str ''en''" "js_str ''  ''"] not_CJK_en
    by blast
  from a b c is_CJK_zh not_CJK_en two_spaces zh_text_plain show ?thesis by blast
qed

text \<open>
  For a CJK language whitespace-only input is not tokenised to the empty list: each
  space is a token, like any other character.
\<close>

theorem C7_CJK_whitespace_counterexample:
  "is_CJK example_uls (js_str ''zh'') \<and> list_all is_space (js_str ''  '') \<and>
   tokenise example_uls (js_str ''  '') (js_str ''zh'') = [js_str '' '', js_str '' '']"
  by code_simp

text \<open>
  A character outside the Basic Multilingual Plane is one code point and two code
  units; \<open>string.split( '' )\<close> cuts between the two, where the comment of
  \<open>tokenise\<close> speaks of a split at each code point.
\<close>

lemma supplementary_character_split:
  "code_points supplementary_text = [[0xD842, 0xDFB7]] \<and>
   tokenise example_uls supplementary_text (js_str ''zh'') = [[0xD842], [0xDFB7]]"
  by code_simp

section \<open>Unmodified content\<close>

lemma js_div_unit: "k \<le> n \<Longrightarrow> 0 < n \<Longrightarrow> in_unit_interval (js_div k n)"
  by (simp add: js_div_def)

text \<open>
  Claim C2, as the code has it. \<open>calculateUnmodifiedContent\<close> returns 0 when one of
  the strings is empty and 1 when they are identical and not empty. Otherwise it
  takes the longer of the two token lists (the first string's when they are equally
  long), counts the tokens of that longer list that occur in the shorter one, and
  divides by the length of the longer list. Whenever one of the strings has a token,
  the result lies between 0 and 1.
\<close>

theorem C2_unmodified_content:
  "(s1 = [] \<or> s2 = [] \<longrightarrow> calculateUnmodifiedContent u s1 s2 l = Fin 0) \<and>
   (s1 \<noteq> [] \<and> s1 = s2 \<longrightarrow> calculateUnmodifiedContent u s1 s2 l = Fin 1) \<and>
   (s1 \<noteq> [] \<and> s2 \<noteq> [] \<and> s1 \<noteq> s2 \<and> length (tokenise u s1 l) < length (tokenise u s2 l) \<longrightarrow>
      calculateUnmodifiedContent u s1 s2 l =
        js_div (length (filter (\<lambda>token. token \<in> set (tokenise u s1 l)) (tokenise u s2 l)))
          (length (tokenise u s2 l))) \<and>
   (s1 \<noteq> [] \<and> s2 \<noteq> [] \<and> s1 \<noteq> s2 \<and> length (tokenise u s2 l) \<le> length (tokenise u s1 l) \<longrightarrow>
      calculateUnmodifiedContent u s1 s2 l =
        js_div (length (filter (\<lambda>token. token \<in> set (tokenise u s2 l)) (tokenise u s1 l)))
          (length (tokenise u s1 l))) \<and>
   (tokenise u s1 l \<noteq> [] \<or> tokenise u s2 l \<noteq> [] \<longrightarrow>
      in_unit_interval (calculateUnmodifiedContent u s1 s2 l))"
proof -
  have unit: "in_unit_interval (calculateUnmodifiedContent u s1 s2 l)"
    if ne: "tokenise u s1 l \<noteq> [] \<or> tokenise u s2 l \<noteq> []"
  proof (cases "length (tokenise u s1 l) < length (tokenise u s2 l)")
    case True
    then have "0 < length (tokenise u s2 l)" by (cases "tokenise u s2 l") auto
    then show ?thesis
      using True by (auto simp: calculateUnmodifiedContent_def Let_def js_div_unit)
  next
    case False
    then have "0 < length (tokenise u s1 l)" using ne by (cases "tokenise u s1 l") auto
    then show ?thesis
      using False by (auto simp: calculateUnmodifiedContent_def Let_def js_div_unit)
  qed
  show ?thesis
    using unit by (simp add: calculateUnmodifiedContent_def Let_def)
qed

lemma scenario_B_tokens:
  "tokenise example_uls (js_str ''The cat sat'') (js_str ''en'') \<noteq> []"
  by code_simp

lemma scenario_B_ratio:
  "calculateUnmodifiedContent example_uls (js_str ''The cat sat'')
     (js_str ''The cat sat on the mat'') (js_str ''en'') = Fin (1 / 2)"
  by code_simp

text \<open>Scenario B: three tokens of the six are unmodified, and one half is in
  the interval.\<close>

theorem C2_scenario_B_witness:
  "tokenise example_uls (js_str ''The cat sat'') (js_str ''en'') \<noteq> [] \<and>
   calculateUnmodifiedContent example_uls (js_str ''The cat sat'')
     (js_str ''The cat sat on the mat'') (js_str ''en'') = Fin (1 / 2) \<and>
   in_unit_interval (Fin (1 / 2))"
proof -
  have "in_unit_interval (calculateUnmodifiedContent example_uls (js_str ''The cat sat'')
     (js_str ''The cat sat on the mat'') (js_str ''en''))"
    using C2_unmodified_content [of "js_str ''The cat sat''" "js_str ''The cat sat on the mat''"
        example_uls "js_str ''en''"] scenario_B_tokens
    by blast
  then show ?thesis
    using scenario_B_tokens by (simp only: scenario_B_ratio simp_thms)
qed

text \<open>
  The count is not the one of the specification, which counts the tokens of the
  smaller list that occur in the larger one: on \<open>a a a\<close> against \<open>a b\<close> the code
  counts the three tokens of the larger list and returns 1, the specification's
  count is the one token \<open>a\<close> of the smaller list, a ratio of one third.
\<close>

theorem C2_repeated_token_counterexample:
  "calculateUnmodifiedContent example_uls (js_str ''a a a'') (js_str ''a b'') (js_str ''en'') = Fin 1 \<and>
   unmodifiedRatio_spec example_uls (js_str ''a a a'') (js_str ''a b'') (js_str ''en'') = Fin (1 / 3)"
  by code_simp

text \<open>
  Two different strings of whitespace only are outside the bound: both token lists
  are empty and the quotient \<open>0 / 0\<close> is \<open>NaN\<close>.
\<close>

lemma whitespace_only_ratio:
  "calculateUnmodifiedContent example_uls (js_str '' '') (js_str ''  '') (js_str ''en'') = NaN"
  by code_simp

section \<open>Swapping the arguments of the unmodified content\<close>

text \<open>
  Claim C3, as the code has it. Swapping the two strings gives the same ratio, a
  number, whenever the two token lists differ in length or one of the strings is
  empty: the longer list is then the same in both orders. With token lists of equal
  length the first argument's tokens are the ones counted, and the two orders can
  differ.
\<close>

theorem C3_symmetric_on_unequal_lengths:
  assumes "length (tokenise u s1 l) \<noteq> length (tokenise u s2 l) \<or> s1 = [] \<or> s2 = []"
  shows "calculateUnmodifiedContent u s1 s2 l = calculateUnmodifiedContent u s2 s1 l \<and>
         calculateUnmodifiedContent u s1 s2 l \<noteq> NaN"
proof (cases "s1 = [] \<or> s2 = []")
  case True
  then show ?thesis by (auto simp: calculateUnmodifiedContent_def)
next
  case False
  then have len: "length (tokenise u s1 l) \<noteq> length (tokenise u s2 l)" using assms by blast
  then have neq: "s1 \<noteq> s2" by auto
  show ?thesis
  proof (cases "length (tokenise u s1 l) < length (tokenise u s2 l)")
    case True
    then show ?thesis using False neq
      by (auto simp: calculateUnmodifiedContent_def Let_def js_div_def)
  next
    case F: False
    then have "length (tokenise u s2 l) < length (tokenise u s1 l)" using len by simp
    then show ?thesis using False neq
      by (auto simp: calculateUnmodifiedContent_def Let_def js_div_def)
  qed
qed

lemma scenario_B_lengths:
  "length (tokenise example_uls (js_str ''The cat sat'') (js_str ''en'')) \<noteq>
     length (tokenise example_uls (js_str ''The cat sat on the mat'') (js_str ''en''))"
  by code_simp

text \<open>Scenario B with the arguments swapped.\<close>

theorem C3_scenario_B_swapped_witness:
  "length (tokenise example_uls (js_str ''The cat sat'') (js_str ''en'')) \<noteq>
     length (tokenise example_uls (js_str ''The cat sat on the mat'') (js_str ''en'')) \<and>
   calculateUnmodifiedContent example_uls (js_str ''The cat sat on the mat'')
     (js_str ''The cat sat'') (js_str ''en'') = Fin (1 / 2)"
proof -
  have "calculateUnmodifiedContent example_uls (js_str ''The cat sat'')
     (js_str ''The cat sat on the mat'') (js_str ''en'') =
     calculateUnmodifiedContent example_uls (js_str ''The cat sat on the mat'')
     (js_str ''The cat sat'') (js_str ''en'')"
    using C3_symmetric_on_unequal_lengths [of example_uls "js_str ''The cat sat''" "js_str ''en''"
        "js_str ''The cat sat on the mat''"] scenario_B_lengths by blast
  then show ?thesis using scenario_B_lengths scenario_B_ratio by simp
qed

text \<open>
  Two tokens against two tokens: \<open>a a\<close> against \<open>a b\<close> is 1, \<open>a b\<close> against
  \<open>a a\<close> is one half.
\<close>

theorem C3_equal_lengths_counterexample:
  "calculateUnmodifiedContent example_uls (js_str ''a a'') (js_str ''a b'') (js_str ''en'') = Fin 1 \<and>
   calculateUnmodifiedContent example_uls (js_str ''a b'') (js_str ''a a'') (js_str ''en'') = Fin (1 / 2)"
  by code_simp

section \<open>The issue registry\<close>

text \<open>
  On two different identifiers the comparator is negative exactly when the first comes
  before the second in the registry order, and positive exactly when it comes after.
\<close>

lemma title_global_strings:
  "js_string_gt (js_str ''title'') (js_str ''global'')"
  "\<not> js_string_gt (js_str ''global'') (js_str ''title'')"
  "\<not> js_string_gt (js_str ''title'') (js_str ''title'')"
  "\<not> js_string_gt (js_str ''global'') (js_str ''global'')"
  by code_simp+

lemma issue_before_rank: "issue_before a b \<longleftrightarrow> issue_rank a < issue_rank b"
  by (cases a; cases b) auto

lemma issue_rank_inj: "issue_rank a = issue_rank b \<Longrightarrow> a = b"
  by (cases a; cases b) auto

lemma comparator_before:
  "a \<noteq> b \<Longrightarrow> sortLettersAndNumbers a b < 0 \<longleftrightarrow> issue_before a b"
  by (cases a; cases b) (auto simp: sortLettersAndNumbers_def title_global_strings)

lemma comparator_after:
  "a \<noteq> b \<Longrightarrow> sortLettersAndNumbers a b > 0 \<longleftrightarrow> issue_before b a"
  by (cases a; cases b) (auto simp: sortLettersAndNumbers_def title_global_strings)

lemma sorted_issue_rank:
  "sorted_wrt issue_before xs \<longleftrightarrow> sorted_wrt (<) (map issue_rank xs)"
  by (simp add: sorted_wrt_map issue_before_rank [abs_def])

lemma set_insert_by: "set (insert_by cmp e xs) = insert e (set xs)"
  by (induction xs) auto

lemma sorted_insert_by:
  assumes "sorted_wrt issue_before xs" and "e \<notin> set xs"
  shows "sorted_wrt issue_before (insert_by sortLettersAndNumbers e xs)"
  using assms
proof (induction xs)
  case Nil
  then show ?case by simp
next
  case (Cons y ys)
  have ne: "y \<noteq> e" using Cons.prems(2) by auto
  show ?case
  proof (cases "sortLettersAndNumbers y e > 0")
    case True
    then have ey: "issue_before e y" using comparator_after [OF ne] by simp
    have "\<forall>z \<in> set ys. issue_before e z"
      using Cons.prems(1) ey by (auto simp: issue_before_rank)
    then show ?thesis using True ey Cons.prems(1) by simp
  next
    case False
    then have "\<not> issue_rank e < issue_rank y"
      using comparator_after [OF ne] by (simp add: issue_before_rank)
    moreover have "issue_rank y \<noteq> issue_rank e"
      using ne issue_rank_inj by blast
    ultimately have ye: "issue_before y e"
      unfolding issue_before_rank by linarith
    then show ?thesis using False Cons by (auto simp: set_insert_by)
  qed
qed

lemma insert_by_last:
  "\<forall>y \<in> set xs. \<not> cmp y e > 0 \<Longrightarrow> insert_by cmp e xs = xs @ [e]"
  by (induction xs) auto

lemma js_sort_snoc: "js_sort cmp (xs @ [e]) = insert_by cmp e (js_sort cmp xs)"
  by (simp add: js_sort_def)

lemma set_js_sort: "set (js_sort cmp xs) = set xs"
  by (induction xs rule: rev_induct) (auto simp: js_sort_snoc set_insert_by js_sort_def)

lemma sorted_js_sort:
  "distinct xs \<Longrightarrow> sorted_wrt issue_before (js_sort sortLettersAndNumbers xs)"
proof (induction xs rule: rev_induct)
  case Nil
  then show ?case by (simp add: js_sort_def)
next
  case (snoc x xs)
  then show ?case by (simp add: js_sort_snoc sorted_insert_by set_js_sort)
qed

lemma length_js_sort: "length (js_sort cmp xs) = length xs"
proof (induction xs rule: rev_induct)
  case Nil
  then show ?case by (simp add: js_sort_def)
next
  case (snoc x xs)
  have "length (insert_by cmp e ys) = Suc (length ys)" for e ys
    by (induction ys) auto
  then show ?case using snoc by (simp add: js_sort_snoc)
qed

lemma sorted_issue_unique:
  assumes "sorted_wrt issue_before xs" and "sorted_wrt issue_before ys" and "set xs = set ys"
  shows "xs = ys"
proof -
  have sx: "sorted (map issue_rank xs)" "distinct (map issue_rank xs)"
    using assms(1) by (simp_all add: sorted_issue_rank strict_sorted_iff)
  have sy: "sorted (map issue_rank ys)" "distinct (map issue_rank ys)"
    using assms(2) by (simp_all add: sorted_issue_rank strict_sorted_iff)
  have "set (map issue_rank xs) = set (map issue_rank ys)"
    using assms(3) by simp
  then have "map issue_rank xs = map issue_rank ys"
    using sx sy by (intro sorted_distinct_set_unique)
  moreover have "inj issue_rank" by (auto intro: injI issue_rank_inj)
  ultimately show ?thesis by (simp add: inj_map_eq_map)
qed

lemma js_sort_unique:
  assumes "distinct xs" and "distinct ys" and "set ys = set xs"
    and "sorted_wrt (\<lambda>a b. sortLettersAndNumbers a b < 0) ys"
  shows "ys = js_sort sortLettersAndNumbers xs"
proof -
  have "sorted_wrt issue_before ys"
    using assms(2,4)
  proof (induction ys)
    case Nil
    then show ?case by simp
  next
    case (Cons y ys)
    have "issue_before y z" if "z \<in> set ys" for z
    proof -
      have "y \<noteq> z" using Cons.prems(1) that by auto
      moreover have "sortLettersAndNumbers y z < 0" using Cons.prems(2) that by simp
      ultimately show ?thesis using comparator_before by simp
    qed
    then show ?case using Cons by simp
  qed
  moreover have "sorted_wrt issue_before (js_sort sortLettersAndNumbers xs)"
    using assms(1) by (rule sorted_js_sort)
  moreover have "set ys = set (js_sort sortLettersAndNumbers xs)"
    using assms(3) by (simp add: set_js_sort)
  ultimately show ?thesis by (rule sorted_issue_unique)
qed

lemma js_sort_sorted_input:
  "sorted_wrt issue_before xs \<Longrightarrow> js_sort sortLettersAndNumbers xs = xs"
proof (induction xs rule: rev_induct)
  case Nil
  then show ?case by (simp add: js_sort_def)
next
  case (snoc x xs)
  have sx: "sorted_wrt issue_before xs" and bx: "\<forall>y \<in> set xs. issue_before y x"
    using snoc.prems by (auto simp: sorted_wrt_append)
  have "\<not> sortLettersAndNumbers y x > 0" if "y \<in> set xs" for y
  proof -
    have "issue_before y x" using bx that by blast
    then have "y \<noteq> x" "\<not> issue_before x y" by (auto simp: issue_before_rank)
    then show ?thesis using comparator_after by simp
  qed
  then have "insert_by sortLettersAndNumbers x xs = xs @ [x]"
    by (intro insert_by_last) blast
  then show ?case using snoc.IH [OF sx] by (simp add: js_sort_snoc)
qed

lemma indexOf_ge: "- 1 \<le> indexOf xs x"
  by (induction xs) (auto simp: Let_def)

lemma indexOf_absent: "indexOf xs x = -1 \<longleftrightarrow> x \<notin> set xs"
proof (induction xs)
  case Nil
  then show ?case by simp
next
  case (Cons y ys)
  then show ?case using indexOf_ge [of ys x] by (auto simp: Let_def)
qed

lemma indexOf_nonneg: "x \<in> set xs \<Longrightarrow> 0 \<le> indexOf xs x"
  using indexOf_ge [of xs x] indexOf_absent [of xs x] by linarith

lemma splice1_indexOf: "x \<in> set xs \<Longrightarrow> splice1 (indexOf xs x) xs = remove1 x xs"
proof (induction xs)
  case Nil
  then show ?case by simp
next
  case (Cons y ys)
  show ?case
  proof (cases "y = x")
    case True
    then show ?thesis by (simp add: splice1_def)
  next
    case False
    then have mem: "x \<in> set ys" using Cons.prems by simp
    have nn: "0 \<le> indexOf ys x" using mem by (rule indexOf_nonneg)
    then have "nat (indexOf ys x + 1) = Suc (nat (indexOf ys x))" by simp
    then show ?thesis
      using False Cons.IH [OF mem] nn indexOf_absent [of ys x] mem
      by (simp add: splice1_def Let_def)
  qed
qed

lemma sorted_wrt_remove1: "sorted_wrt P xs \<Longrightarrow> sorted_wrt P (remove1 x xs)"
proof (induction xs)
  case Nil
  then show ?case by simp
next
  case (Cons y ys)
  then show ?case using set_remove1_subset [of x ys] by auto
qed

text \<open>
  The comparator of the earlier variant is not a consistent comparator: it puts two
  strings before each other, and it calls 1 and 2 equal in one order and not in the
  other. What \<open>sort\<close> returns with it is left to the engine. It finds no fault
  with the array \<open>['title', 2, 7, 1]\<close>: asked about an element and the one before
  it, it never puts the element first.
\<close>

lemma earlier_comparator_not_consistent:
  "sortLettersAndNumbers_earlier Title Global < 0 \<and>
   sortLettersAndNumbers_earlier Global Title < 0 \<and>
   sortLettersAndNumbers_earlier (SectionId 1) (SectionId 2) = 0 \<and>
   sortLettersAndNumbers_earlier (SectionId 2) (SectionId 1) > 0"
  by (simp add: sortLettersAndNumbers_earlier_def)

lemma earlier_comparator_accepts_unsorted:
  "sortLettersAndNumbers_earlier (SectionId 2) Title = 1 \<and>
   sortLettersAndNumbers_earlier (SectionId 7) (SectionId 2) = 1 \<and>
   sortLettersAndNumbers_earlier (SectionId 1) (SectionId 7) = 0"
  by (simp add: sortLettersAndNumbers_earlier_def)

lemma registry_initially_ok:
  "issue_registry_ok (nodesWithIssues (MwCXTranslationTracker target srcLang tgtLang))"
  by (simp add: issue_registry_ok_def MwCXTranslationTracker_def)

text \<open>
  The current \<open>setTranslationIssues\<close> (lines 566 to 601) preserves the invariant
  of \<open>nodesWithIssues\<close>: no identifier twice, \<open>'global'\<close> before \<open>'title'\<close>, both
  before every section number, and the section numbers ascending. With state true
  the identifier is in the registry afterwards, and the tracker is unchanged when it
  was there already; with state false the identifier is removed if present and the
  registry is unchanged otherwise.
\<close>

lemma setTranslationIssues_keeps_registry:
  assumes "issue_registry_ok (nodesWithIssues t)"
  shows "issue_registry_ok (nodesWithIssues (setTranslationIssues ident state t)) \<and>
    (state \<and> ident \<in> set (nodesWithIssues t) \<longrightarrow> setTranslationIssues ident state t = t) \<and>
    (state \<longrightarrow> set (nodesWithIssues (setTranslationIssues ident state t)) =
       insert ident (set (nodesWithIssues t))) \<and>
    (\<not> state \<longrightarrow>
       nodesWithIssues (setTranslationIssues ident state t) = remove1 ident (nodesWithIssues t) \<and>
       ident \<notin> set (nodesWithIssues (setTranslationIssues ident state t)))"
proof -
  let ?xs = "nodesWithIssues t"
  have d: "distinct ?xs" and so: "sorted_wrt issue_before ?xs"
    using assms by (simp_all add: issue_registry_ok_def)
  show ?thesis
  proof (cases "ident \<in> set ?xs")
    case True
    then have idx: "indexOf ?xs ident \<noteq> -1" by (simp add: indexOf_absent)
    have rm: "splice1 (indexOf ?xs ident) ?xs = remove1 ident ?xs"
      using True by (rule splice1_indexOf)
    show ?thesis
      using True idx rm d so assms
      by (auto simp: setTranslationIssues_def Let_def issue_registry_ok_def sorted_wrt_remove1)
  next
    case False
    then have idx: "indexOf ?xs ident = -1" by (simp add: indexOf_absent)
    have srt: "js_sort sortLettersAndNumbers (?xs @ [ident]) =
        insert_by sortLettersAndNumbers ident ?xs"
      using so by (simp add: js_sort_snoc js_sort_sorted_input)
    have "sorted_wrt issue_before (insert_by sortLettersAndNumbers ident ?xs)"
      using so False by (rule sorted_insert_by)
    moreover have "distinct (insert_by sortLettersAndNumbers ident ?xs)"
      using calculation by (auto simp: sorted_issue_rank strict_sorted_iff distinct_map)
    ultimately show ?thesis
      using False idx srt assms
      by (auto simp: setTranslationIssues_def Let_def issue_registry_ok_def set_insert_by
          remove1_idem)
  qed
qed

lemma example_registry_ok: "issue_registry_ok [Title, SectionId 2, SectionId 7]"
  by (simp add: issue_registry_ok_def)

lemma example_registry_add_global:
  "nodesWithIssues (setTranslationIssues Global True (registry_tracker [Title, SectionId 2, SectionId 7]))
     = [Global, Title, SectionId 2, SectionId 7]"
  by code_simp

text \<open>Reporting a global issue on a registry that holds the title and two sections.\<close>

lemma add_global_example:
  "issue_registry_ok [Title, SectionId 2, SectionId 7] \<and>
   nodesWithIssues (setTranslationIssues Global True
       (registry_tracker [Title, SectionId 2, SectionId 7])) =
     [Global, Title, SectionId 2, SectionId 7] \<and>
   issue_registry_ok [Global, Title, SectionId 2, SectionId 7]"
proof -
  have "issue_registry_ok (nodesWithIssues (registry_tracker [Title, SectionId 2, SectionId 7]))"
    using example_registry_ok by (simp add: registry_tracker_def)
  then have "issue_registry_ok (nodesWithIssues (setTranslationIssues Global True
       (registry_tracker [Title, SectionId 2, SectionId 7])))"
    using setTranslationIssues_keeps_registry by blast
  then show ?thesis using example_registry_ok by (simp add: example_registry_add_global)
qed

text \<open>
  With the current comparator V8's \<open>sort\<close> gives what the insertion sort gives: an
  issue reported on section 1 puts it in front of sections 2 and 7.
\<close>

lemma v8_sort_current_comparator:
  "v8_sort sortLettersAndNumbers [Title, SectionId 2, SectionId 7, SectionId 1] =
     [Title, SectionId 1, SectionId 2, SectionId 7] \<and>
   nodesWithIssues (setTranslationIssues (SectionId 1) True
       (registry_tracker [Title, SectionId 2, SectionId 7])) =
     [Title, SectionId 1, SectionId 2, SectionId 7]"
  by code_simp

text \<open>
  The earlier variant on V8 builds the registry \<open>['title', 2, 7]\<close> from the empty
  one, by an issue on the title, on section 2 and on section 7.
\<close>

lemma earlier_registry_reached:
  "nodesWithIssues (setTranslationIssues_earlier v8_sort (SectionId 7) True
     (setTranslationIssues_earlier v8_sort (SectionId 2) True
       (setTranslationIssues_earlier v8_sort Title True (registry_tracker [])))) =
     [Title, SectionId 2, SectionId 7]"
  by code_simp

text \<open>
  Claim C9, at the earlier variant of \<open>setTranslationIssues\<close> (lines 1097 to 1125).
  The registry holds \<open>'title'\<close>, 2 and 7, in the order of the invariant, and an
  issue is reported on section 1. The comparator answers \<open>false\<close>, which \<open>sort\<close>
  reads as 0, when asked whether 1 comes after 7, so V8 takes the array with 1 pushed
  at its end for one ascending run and leaves it as it is. The registry then holds
  \<open>'title'\<close>, 2, 7, 1: the section numbers are not ascending, against the claim and
  against the comment at lines 1122 to 1123.
\<close>

theorem C9_earlier_variant_unsorted:
  "issue_registry_ok [Title, SectionId 2, SectionId 7] \<and>
   nodesWithIssues (setTranslationIssues_earlier v8_sort (SectionId 1) True
       (registry_tracker [Title, SectionId 2, SectionId 7])) =
     [Title, SectionId 2, SectionId 7, SectionId 1] \<and>
   \<not> issue_registry_ok [Title, SectionId 2, SectionId 7, SectionId 1]"
  by code_simp

section \<open>Section alignment\<close>

text \<open>
  Entered with a counter of at most 10 and the heights of the two boxes as they are,
  the loop returns. Either it finds the boxes aligned after some rounds, at most
  \<open>10 - steps\<close> of them, or it runs \<open>11 - steps\<close> rounds, none of them entered
  with aligned boxes, and tracks the abort.
\<close>

lemma alignmentLoop_rounds:
  "steps \<le> 10 \<Longrightarrow>
   \<exists>a'. alignmentLoop lay steps (section_height lay a) (source_height lay a) a = Some a' \<and>
     ((\<exists>k \<le> 10 - steps.
         (\<forall>j < k. \<not> aligned lay ((raise_both lay ^^ j) a)) \<and>
         aligned lay ((raise_both lay ^^ k) a) \<and>
         a' = (raise_both lay ^^ k) a) \<or>
      ((\<forall>j \<le> 10 - steps. \<not> aligned lay ((raise_both lay ^^ j) a)) \<and>
       a' = track ((raise_both lay ^^ (11 - steps)) a)))"
proof (induction "10 - steps" arbitrary: steps a)
  case 0
  then have s: "steps = 10" by simp
  show ?case
  proof (cases "aligned lay a")
    case True
    then have "alignmentLoop lay steps (section_height lay a) (source_height lay a) a = Some a"
      by (subst alignmentLoop.simps) (simp add: aligned_def)
    then show ?thesis using True by auto
  next
    case False
    then have "alignmentLoop lay steps (section_height lay a) (source_height lay a) a =
        Some (track (raise_both lay a))"
      by (subst alignmentLoop.simps) (simp add: s aligned_def Let_def raise_both_def)
    then show ?thesis using False s by simp
  qed
next
  case (Suc n)
  then have s: "steps < 10" "n = 10 - (steps + 1)" "steps + 1 \<le> 10" by simp_all
  show ?case
  proof (cases "aligned lay a")
    case True
    then have "alignmentLoop lay steps (section_height lay a) (source_height lay a) a = Some a"
      by (subst alignmentLoop.simps) (simp add: aligned_def)
    then show ?thesis using True by auto
  next
    case False
    let ?a1 = "raise_both lay a"
    obtain a' where run: "alignmentLoop lay (steps + 1) (section_height lay ?a1)
          (source_height lay ?a1) ?a1 = Some a'"
      and out: "(\<exists>k \<le> 10 - (steps + 1).
         (\<forall>j < k. \<not> aligned lay ((raise_both lay ^^ j) ?a1)) \<and>
         aligned lay ((raise_both lay ^^ k) ?a1) \<and>
         a' = (raise_both lay ^^ k) ?a1) \<or>
        ((\<forall>j \<le> 10 - (steps + 1). \<not> aligned lay ((raise_both lay ^^ j) ?a1)) \<and>
         a' = track ((raise_both lay ^^ (11 - (steps + 1))) ?a1))"
      using Suc.hyps(1) [OF s(2) s(3), of ?a1] by blast
    have eq: "alignmentLoop lay steps (section_height lay a) (source_height lay a) a = Some a'"
      using False s(1) run
      by (subst alignmentLoop.simps) (simp add: Let_def aligned_def raise_both_def)
    have shift: "(raise_both lay ^^ j) ?a1 = (raise_both lay ^^ Suc j) a" for j
      by (simp add: funpow_swap1)
    have below: "\<not> aligned lay ((raise_both lay ^^ j) a)"
      if "\<forall>i < m. \<not> aligned lay ((raise_both lay ^^ Suc i) a)" and "j < Suc m" for j m
      using that False by (cases j) auto
    from out show ?thesis
    proof
      assume "\<exists>k \<le> 10 - (steps + 1).
         (\<forall>j < k. \<not> aligned lay ((raise_both lay ^^ j) ?a1)) \<and>
         aligned lay ((raise_both lay ^^ k) ?a1) \<and>
         a' = (raise_both lay ^^ k) ?a1"
      then obtain k where k: "k \<le> 10 - (steps + 1)"
        and d: "\<forall>j < k. \<not> aligned lay ((raise_both lay ^^ Suc j) a)"
        and e: "aligned lay ((raise_both lay ^^ Suc k) a)"
        and r: "a' = (raise_both lay ^^ Suc k) a"
        unfolding shift by blast
      have "Suc k \<le> 10 - steps" using k s(1) by simp
      moreover have "\<forall>j < Suc k. \<not> aligned lay ((raise_both lay ^^ j) a)"
        using below [OF d] by blast
      ultimately show ?thesis using eq e r by blast
    next
      assume "(\<forall>j \<le> 10 - (steps + 1). \<not> aligned lay ((raise_both lay ^^ j) ?a1)) \<and>
         a' = track ((raise_both lay ^^ (11 - (steps + 1))) ?a1)"
      then have d: "\<forall>j < Suc (10 - (steps + 1)). \<not> aligned lay ((raise_both lay ^^ Suc j) a)"
        and r: "a' = track ((raise_both lay ^^ Suc (11 - (steps + 1))) a)"
        unfolding shift by (simp_all add: less_Suc_eq_le)
      have "\<forall>j < Suc (Suc (10 - (steps + 1))). \<not> aligned lay ((raise_both lay ^^ j) a)"
        using below [OF d] by blast
      moreover have "Suc (Suc (10 - (steps + 1))) = Suc (10 - steps)"
        "Suc (11 - (steps + 1)) = 11 - steps"
        using s(1) by simp_all
      ultimately show ?thesis using eq r by (simp add: less_Suc_eq_le)
    qed
  qed
qed

text \<open>
  Claim C8, as the code has it. Every call of \<open>keepAlignment\<close> returns. A
  \<open>TABLE\<close> is left as it is. Otherwise the \<open>min-height\<close> of the source box is
  reset and the two heights are measured. When the translation section is the shorter
  box, its \<open>min-height\<close> is set to the height of the source box, once, with no
  stepping. When the heights are equal nothing more is done. When the source box is
  the shorter one, its \<open>min-height\<close> is set to the height of the section, and the
  loop then raises both \<open>min-height\<close>s to ten pixels above the section's rendered
  height, round after round: it stops after at most ten rounds with the boxes aligned,
  or it runs an eleventh round, tracks the abort and stops.
\<close>

theorem C8_alignment_terminates:
  "\<exists>a'. keepAlignment lay tagName a = Some a' \<and>
     (tagName = js_str ''TABLE'' \<longrightarrow> a' = a) \<and>
     (tagName \<noteq> js_str ''TABLE'' \<and>
      section_height lay (css_source None a) < source_height lay (css_source None a) \<longrightarrow>
        a' = css_section (Some (source_height lay (css_source None a))) (css_source None a)) \<and>
     (tagName \<noteq> js_str ''TABLE'' \<and> aligned lay (css_source None a) \<longrightarrow>
        a' = css_source None a) \<and>
     (tagName \<noteq> js_str ''TABLE'' \<and>
      source_height lay (css_source None a) < section_height lay (css_source None a) \<longrightarrow>
        (\<exists>k \<le> 10.
           (\<forall>j < k. \<not> aligned lay ((raise_both lay ^^ j) (match_source lay a))) \<and>
           aligned lay a' \<and> a' = (raise_both lay ^^ k) (match_source lay a)) \<or>
        ((\<forall>j \<le> 10. \<not> aligned lay ((raise_both lay ^^ j) (match_source lay a))) \<and>
         a' = track ((raise_both lay ^^ 11) (match_source lay a))))"
proof (cases "tagName = js_str ''TABLE''")
  case True
  then show ?thesis by (simp add: keepAlignment_def)
next
  case False
  let ?a0 = "css_source None a"
  consider (less) "source_height lay ?a0 < section_height lay ?a0"
    | (greater) "section_height lay ?a0 < source_height lay ?a0"
    | (equal) "section_height lay ?a0 = source_height lay ?a0"
    by linarith
  then show ?thesis
  proof cases
    case less
    let ?a1 = "match_source lay a"
    obtain a' where run:
      "alignmentLoop lay 0 (section_height lay ?a1) (source_height lay ?a1) ?a1 = Some a'"
      and out: "(\<exists>k \<le> 10 - 0.
         (\<forall>j < k. \<not> aligned lay ((raise_both lay ^^ j) ?a1)) \<and>
         aligned lay ((raise_both lay ^^ k) ?a1) \<and>
         a' = (raise_both lay ^^ k) ?a1) \<or>
        ((\<forall>j \<le> 10 - 0. \<not> aligned lay ((raise_both lay ^^ j) ?a1)) \<and>
         a' = track ((raise_both lay ^^ (11 - 0)) ?a1))"
      using alignmentLoop_rounds [of 0 lay ?a1] by auto
    have "keepAlignment lay tagName a = Some a'"
      using False less run by (simp add: keepAlignment_def Let_def match_source_def)
    moreover have "\<not> aligned lay ?a0" "\<not> section_height lay ?a0 < source_height lay ?a0"
      using less by (simp_all add: aligned_def)
    ultimately show ?thesis
      using False less out by auto
  next
    case greater
    then show ?thesis using False by (simp add: keepAlignment_def Let_def aligned_def)
  next
    case equal
    then show ?thesis using False by (simp add: keepAlignment_def Let_def aligned_def)
  qed
qed

lemma scenario_E_facts:
  "js_str ''DIV'' \<noteq> js_str ''TABLE''"
  "section_height (natural_layout 100 70) (css_source None unstyled) <
     source_height (natural_layout 100 70) (css_source None unstyled)"
  "css_section (Some (source_height (natural_layout 100 70) (css_source None unstyled)))
     (css_source None unstyled) =
   \<lparr>sourceMinHeight = None, sectionMinHeight = Some 100,
     calls = [SourceMinHeight None, SectionMinHeight (Some 100)]\<rparr>"
  "aligned (natural_layout 100 70)
     \<lparr>sourceMinHeight = None, sectionMinHeight = Some 100,
       calls = [SourceMinHeight None, SectionMinHeight (Some 100)]\<rparr>"
  by code_simp+

text \<open>Scenario E: a source of height 100 and a translation of natural height 70.
  The section's \<open>min-height\<close> becomes 100 in one call, and the boxes are aligned.\<close>

theorem C8_scenario_E_witness:
  "js_str ''DIV'' \<noteq> js_str ''TABLE'' \<and>
   section_height (natural_layout 100 70) (css_source None unstyled) <
     source_height (natural_layout 100 70) (css_source None unstyled) \<and>
   keepAlignment (natural_layout 100 70) (js_str ''DIV'') unstyled =
     Some \<lparr>sourceMinHeight = None, sectionMinHeight = Some 100,
       calls = [SourceMinHeight None, SectionMinHeight (Some 100)]\<rparr> \<and>
   aligned (natural_layout 100 70)
     \<lparr>sourceMinHeight = None, sectionMinHeight = Some 100,
       calls = [SourceMinHeight None, SectionMinHeight (Some 100)]\<rparr>"
proof -
  obtain a' where "keepAlignment (natural_layout 100 70) (js_str ''DIV'') unstyled = Some a'"
    and "a' = css_section (Some (source_height (natural_layout 100 70) (css_source None unstyled)))
       (css_source None unstyled)"
    using C8_alignment_terminates [of "natural_layout 100 70" "js_str ''DIV''" unstyled]
      scenario_E_facts(1,2)
    by blast
  then show ?thesis using scenario_E_facts by simp
qed

text \<open>
  In scenario E the \<open>min-height\<close> of the translation section is written once, with
  100: it does not grow through 80 and 90 in three steps of ten pixels.
\<close>

theorem C8_scenario_E_counterexample:
  "result_section_min_heights (keepAlignment (natural_layout 100 70) (js_str ''DIV'') unstyled)
     = [Some 100]"
  by code_simp

text \<open>
  A layout in which the source box always renders four pixels above its
  \<open>min-height\<close> never converges: the loop runs eleven rounds, not ten.
\<close>

lemma alignment_eleven_rounds:
  "result_rounds (keepAlignment (padded_layout 70 100) (js_str ''DIV'') unstyled) = Some 11"
  by code_simp

section \<open>A change of provider\<close>





















end
